theory Spec2Isabelle
  imports Main
begin

section \<open>Data model\<close>

text \<open>
  The tables of \<^verbatim>\<open>app/models.py\<close>. Python's integers are \<open>int\<close>, nullable text columns
  are \<open>string option\<close>. The primary keys \<^verbatim>\<open>User.id\<close> and \<^verbatim>\<open>Project.id\<close> are the fields
  \<open>User_id\<close> and \<open>Project_id\<close> (\<open>id\<close> is HOL's identity function). The columns
  \<^verbatim>\<open>created_at\<close> and \<^verbatim>\<open>updated_at\<close> are filled in by the database server
  (\<^verbatim>\<open>func.now()\<close>), never by the functions modelled here, and are left out.
\<close>

record user =
  User_id :: int
  username :: string
  email :: "string option"

record project =
  Project_id :: int
  name :: string
  description :: "string option"
  image_path :: "string option"
  is_public :: bool

text \<open>
  \<^verbatim>\<open>UserProjectPermission\<close>: the composite primary key \<open>(user_id, project_id)\<close> and the
  free-form string \<open>permission_level\<close>. The request schema
  \<^verbatim>\<open>schemas.UserProjectPermissionCreate\<close> has the same three fields and shares the record.
\<close>

record permission =
  user_id :: int
  project_id :: int
  permission_level :: string

text \<open>
  \<^verbatim>\<open>schemas.ProjectBase\<close>: a pydantic model holds a value for every field (the default
  where the request gave none) and remembers which fields the request did give
  (\<^verbatim>\<open>model_fields_set\<close>).
\<close>

datatype field = F_name | F_description | F_image_path | F_is_public

record project_base =
  pb_name :: string
  pb_description :: "string option"
  pb_image_path :: "string option"
  pb_is_public :: bool
  fields_set :: "field set"

text \<open>The dictionary that \<^verbatim>\<open>get_user_projects\<close> builds for each listed project.\<close>

record project_data =
  data_id :: int
  data_name :: string
  data_description :: "string option"
  data_image_path :: "string option"
  data_is_public :: bool
  data_permission_level :: string

text \<open>
  The database behind a \<^verbatim>\<open>Session\<close>: the rows of the three tables in the order in which
  queries return them. \<open>foreign_keys\<close> tells whether the backend enforces the declared
  \<^verbatim>\<open>ForeignKey\<close> constraints (PostgreSQL, the configured backend of \<^verbatim>\<open>app/db.py\<close>, does;
  SQLite, used under \<^verbatim>\<open>TESTING\<close>, does not). Primary keys are enforced by every backend.
\<close>

record store =
  users :: "user list"
  projects :: "project list"
  permissions :: "permission list"
  foreign_keys :: bool

text \<open>
  What a call can raise: the database's \<^verbatim>\<open>IntegrityError\<close>, which no function of the
  repository catches, and FastAPI's \<^verbatim>\<open>HTTPException\<close> with its status code and detail.
\<close>

datatype error = IntegrityError | HTTPException nat string

section \<open>Database operations\<close>

text \<open>
  \<^verbatim>\<open>INSERT\<close> into \<^verbatim>\<open>user_project_permissions\<close>: refused when a row with the same primary
  key exists, and, on a backend that enforces foreign keys, when the user or the project
  does not exist.
\<close>

definition insert_permission :: "store \<Rightarrow> permission \<Rightarrow> error + store" where
  "insert_permission db perm =
     (if (user_id perm, project_id perm) \<in> set (map (\<lambda>q. (user_id q, project_id q)) (permissions db))
      then Inl IntegrityError
      else if foreign_keys db \<and>
              (user_id perm \<notin> set (map User_id (users db)) \<or>
               project_id perm \<notin> set (map Project_id (projects db)))
      then Inl IntegrityError
      else Inr (db\<lparr>permissions := permissions db @ [perm]\<rparr>))"

text \<open>
  \<^verbatim>\<open>INSERT\<close> into \<^verbatim>\<open>projects\<close>: refused when the primary key is taken.
\<close>

definition insert_project :: "store \<Rightarrow> project \<Rightarrow> error + store" where
  "insert_project db p =
     (if Project_id p \<in> set (map Project_id (projects db))
      then Inl IntegrityError
      else Inr (db\<lparr>projects := projects db @ [p]\<rparr>))"

text \<open>
  The identifier the database gives a new project (an autoincremented integer primary
  key). The rule is SQLite's: one more than the largest in use, 1 in an empty table.
  PostgreSQL draws it from a sequence; what the results below use of it holds for both,
  that no project has it yet (\<open>next_project_id_fresh\<close>).
\<close>

definition next_project_id :: "store \<Rightarrow> int" where
  "next_project_id db = fold max (map Project_id (projects db)) 0 + 1"

section \<open>app/crud.py\<close>

text \<open>
  Every function takes the committed database and returns the database that is committed
  when it returns, with its result. A function that writes runs one transaction, ended
  by \<^verbatim>\<open>db.commit()\<close>: when a statement of the transaction raises, nothing of it is
  committed and the database returned is the one received.
\<close>

definition get_user :: "store \<Rightarrow> int \<Rightarrow> user option" where
  "get_user db uid = find (\<lambda>u. User_id u = uid) (users db)"

definition get_project :: "store \<Rightarrow> int \<Rightarrow> project option" where
  "get_project db pid = find (\<lambda>p. Project_id p = pid) (projects db)"

definition get_user_project_permission :: "store \<Rightarrow> int \<Rightarrow> int \<Rightarrow> permission option" where
  "get_user_project_permission db uid pid =
     find (\<lambda>perm. user_id perm = uid \<and> project_id perm = pid) (permissions db)"

definition create_project :: "store \<Rightarrow> project_base \<Rightarrow> int \<Rightarrow> store \<times> (error + project)" where
  "create_project db project uid =
     (let db_project = \<lparr>Project_id = next_project_id db, name = pb_name project,
                        description = pb_description project, image_path = None,
                        is_public = pb_is_public project\<rparr>
      in case insert_project db db_project of
           Inl e \<Rightarrow> (db, Inl e)
         | Inr flushed \<Rightarrow>
             (let db_permission = \<lparr>user_id = uid, project_id = Project_id db_project,
                                    permission_level = ''admin''\<rparr>
              in case insert_permission flushed db_permission of
                   Inl e \<Rightarrow> (db, Inl e)
                 | Inr committed \<Rightarrow> (committed, Inr db_project)))"

text \<open>
  \<^verbatim>\<open>project_update.model_dump(exclude_unset=True).items()\<close>: the fields the request gave,
  in the order of their declaration, each with its value; \<^verbatim>\<open>setattr\<close> stores one of them.
\<close>

datatype item = Name string | Description "string option" | Image_path "string option"
  | Is_public bool

definition model_dump_exclude_unset :: "project_base \<Rightarrow> item list" where
  "model_dump_exclude_unset u =
     (if F_name \<in> fields_set u then [Name (pb_name u)] else []) @
     (if F_description \<in> fields_set u then [Description (pb_description u)] else []) @
     (if F_image_path \<in> fields_set u then [Image_path (pb_image_path u)] else []) @
     (if F_is_public \<in> fields_set u then [Is_public (pb_is_public u)] else [])"

fun setattr :: "project \<Rightarrow> item \<Rightarrow> project" where
  "setattr p (Name v) = p\<lparr>name := v\<rparr>"
| "setattr p (Description v) = p\<lparr>description := v\<rparr>"
| "setattr p (Image_path v) = p\<lparr>image_path := v\<rparr>"
| "setattr p (Is_public v) = p\<lparr>is_public := v\<rparr>"

definition update_project :: "store \<Rightarrow> int \<Rightarrow> project_base \<Rightarrow> store \<times> project option" where
  "update_project db pid project_update =
     (case get_project db pid of
        None \<Rightarrow> (db, None)
      | Some db_project \<Rightarrow>
          (let updated = fold (\<lambda>kv p. setattr p kv) (model_dump_exclude_unset project_update)
                           db_project
           in (db\<lparr>projects := map (\<lambda>p. if Project_id p = pid then updated else p) (projects db)\<rparr>,
               Some updated)))"

definition delete_project :: "store \<Rightarrow> int \<Rightarrow> store \<times> project option" where
  "delete_project db pid =
     (case get_project db pid of
        None \<Rightarrow> (db, None)
      | Some db_project \<Rightarrow>
          (db\<lparr>permissions := filter (\<lambda>perm. project_id perm \<noteq> pid) (permissions db),
              projects := filter (\<lambda>p. Project_id p \<noteq> pid) (projects db)\<rparr>,
           Some db_project))"

definition project_dict :: "project \<Rightarrow> string \<Rightarrow> project_data" where
  "project_dict p level =
     \<lparr>data_id = Project_id p, data_name = name p, data_description = description p,
      data_image_path = image_path p, data_is_public = is_public p,
      data_permission_level = level\<rparr>"

text \<open>
  \<^verbatim>\<open>get_user_projects\<close> runs four queries and combines them; each of its local variables
  is a function of the database and the user here, under the name it has in the source.
  A query returns the rows that pass its filter in the order of the table.
\<close>

definition user_project_ids :: "store \<Rightarrow> int \<Rightarrow> int list" where
  "user_project_ids db uid =
     map project_id (filter (\<lambda>perm. user_id perm = uid) (permissions db))"

definition public_projects :: "store \<Rightarrow> int \<Rightarrow> project list" where
  "public_projects db uid =
     filter (\<lambda>p. is_public p \<and>
                  (if user_project_ids db uid \<noteq> []
                   then Project_id p \<notin> set (user_project_ids db uid)
                   else True))
       (projects db)"

definition permission_projects :: "store \<Rightarrow> int \<Rightarrow> project list" where
  "permission_projects db uid =
     (if user_project_ids db uid \<noteq> []
      then filter (\<lambda>p. Project_id p \<in> set (user_project_ids db uid)) (projects db)
      else [])"

definition user_permissions :: "store \<Rightarrow> int \<Rightarrow> permission list" where
  "user_permissions db uid = filter (\<lambda>perm. user_id perm = uid) (permissions db)"

text \<open>
  The dictionary comprehension \<^verbatim>\<open>{perm.project_id: perm.permission_level for perm in
  user_permissions}\<close>: a later row overwrites an earlier one with the same key.
\<close>

definition permission_dict :: "store \<Rightarrow> int \<Rightarrow> (int \<rightharpoonup> string)" where
  "permission_dict db uid =
     fold (\<lambda>perm d. d(project_id perm \<mapsto> permission_level perm)) (user_permissions db uid)
       Map.empty"

definition get_user_projects :: "store \<Rightarrow> int \<Rightarrow> project_data list" where
  "get_user_projects db uid =
     map (\<lambda>p. project_dict p
                (case permission_dict db uid (Project_id p) of
                   Some level \<Rightarrow> level
                 | None \<Rightarrow> ''public_access''))
       (permission_projects db uid @ public_projects db uid)"

definition create_user_project_permission ::
    "store \<Rightarrow> permission \<Rightarrow> store \<times> (error + permission)" where
  "create_user_project_permission db perm =
     (let db_permission = \<lparr>user_id = user_id perm, project_id = project_id perm,
                            permission_level = permission_level perm\<rparr>
      in case insert_permission db db_permission of
           Inl e \<Rightarrow> (db, Inl e)
         | Inr committed \<Rightarrow> (committed, Inr db_permission))"

definition update_user_project_permission ::
    "store \<Rightarrow> int \<Rightarrow> int \<Rightarrow> string \<Rightarrow> store \<times> permission option" where
  "update_user_project_permission db uid pid level =
     (case get_user_project_permission db uid pid of
        None \<Rightarrow> (db, None)
      | Some db_permission \<Rightarrow>
          (let updated = db_permission\<lparr>permission_level := level\<rparr>
           in (db\<lparr>permissions :=
                    map (\<lambda>q. if user_id q = uid \<and> project_id q = pid then updated else q)
                      (permissions db)\<rparr>,
               Some updated)))"

definition delete_user_project_permission ::
    "store \<Rightarrow> int \<Rightarrow> int \<Rightarrow> store \<times> permission option" where
  "delete_user_project_permission db uid pid =
     (case get_user_project_permission db uid pid of
        None \<Rightarrow> (db, None)
      | Some db_permission \<Rightarrow>
          (db\<lparr>permissions :=
                filter (\<lambda>q. \<not> (user_id q = uid \<and> project_id q = pid)) (permissions db)\<rparr>,
           Some db_permission))"

section \<open>app/routes/projects.py\<close>

text \<open>
  The endpoints call the functions of \<^verbatim>\<open>app.services.user_project_service\<close>. That module
  is not among the sources; the route tests replace exactly the functions listed below,
  which carry the names and parameters of the functions of \<^verbatim>\<open>app/crud.py\<close>. The endpoints
  are therefore defined over a record of these operations, and \<open>user_project_service\<close>
  binds each of them to the function of \<^verbatim>\<open>app/crud.py\<close> of the same name.
\<close>

record service =
  svc_get_user :: "store \<Rightarrow> int \<Rightarrow> user option"
  svc_get_project :: "store \<Rightarrow> int \<Rightarrow> project option"
  svc_get_user_project_permission :: "store \<Rightarrow> int \<Rightarrow> int \<Rightarrow> permission option"
  svc_get_user_projects :: "store \<Rightarrow> int \<Rightarrow> project_data list"
  svc_update_project :: "store \<Rightarrow> int \<Rightarrow> project_base \<Rightarrow> store \<times> project option"
  svc_delete_project :: "store \<Rightarrow> int \<Rightarrow> store \<times> project option"
  svc_create_user_project_permission :: "store \<Rightarrow> permission \<Rightarrow> store \<times> (error + permission)"

definition user_project_service :: service where
  "user_project_service =
     \<lparr>svc_get_user = get_user,
      svc_get_project = get_project,
      svc_get_user_project_permission = get_user_project_permission,
      svc_get_user_projects = get_user_projects,
      svc_update_project = update_project,
      svc_delete_project = delete_project,
      svc_create_user_project_permission = create_user_project_permission\<rparr>"

definition read_user_projects_endpoint ::
    "service \<Rightarrow> int \<Rightarrow> store \<Rightarrow> error + project_data list" where
  "read_user_projects_endpoint svc uid db =
     (case svc_get_user svc db uid of
        None \<Rightarrow> Inl (HTTPException 404 ''User not found'')
      | Some db_user \<Rightarrow> Inr (svc_get_user_projects svc db uid))"

definition update_project_endpoint ::
    "service \<Rightarrow> int \<Rightarrow> project_base \<Rightarrow> int \<Rightarrow> store \<Rightarrow> store \<times> (error + project)" where
  "update_project_endpoint svc pid project_update uid db =
     (case svc_get_user_project_permission svc db uid pid of
        None \<Rightarrow>
          (db, Inl (HTTPException 403
                     ''User does not have sufficient permissions to update this project''))
      | Some perm \<Rightarrow>
          if permission_level perm \<notin> set [''admin'', ''model_editor'']
          then (db, Inl (HTTPException 403
                          ''User does not have sufficient permissions to update this project''))
          else (case svc_update_project svc db pid project_update of
                  (db', None) \<Rightarrow> (db', Inl (HTTPException 404 ''Project not found''))
                | (db', Some db_project) \<Rightarrow> (db', Inr db_project)))"

definition delete_project_endpoint ::
    "service \<Rightarrow> int \<Rightarrow> int \<Rightarrow> store \<Rightarrow> store \<times> (error + string)" where
  "delete_project_endpoint svc pid uid db =
     (case svc_get_user_project_permission svc db uid pid of
        None \<Rightarrow>
          (db, Inl (HTTPException 403
                     ''User does not have sufficient permissions to delete this project''))
      | Some perm \<Rightarrow>
          if permission_level perm \<noteq> ''admin''
          then (db, Inl (HTTPException 403
                          ''User does not have sufficient permissions to delete this project''))
          else (case svc_delete_project svc db pid of
                  (db', None) \<Rightarrow> (db', Inl (HTTPException 404 ''Project not found''))
                | (db', Some db_project) \<Rightarrow> (db', Inr ''Project deleted successfully'')))"

text \<open>
  \<open>pid\<close> is the project of the path, \<open>perm\<close> the request body (which has a
  \<open>project_id\<close> of its own), \<open>admin_uid\<close> the query parameter \<^verbatim>\<open>admin_user_id\<close>.
\<close>

definition add_project_permission_endpoint ::
    "service \<Rightarrow> int \<Rightarrow> permission \<Rightarrow> int \<Rightarrow> store \<Rightarrow> store \<times> (error + permission)" where
  "add_project_permission_endpoint svc pid perm admin_uid db =
     (case svc_get_user_project_permission svc db admin_uid pid of
        None \<Rightarrow>
          (db, Inl (HTTPException 403 ''User does not have admin permissions on this project''))
      | Some admin_permission \<Rightarrow>
          if permission_level admin_permission \<noteq> ''admin''
          then (db, Inl (HTTPException 403
                          ''User does not have admin permissions on this project''))
          else
            (let db_project = svc_get_project svc db pid;
                 db_user_to_add = svc_get_user svc db (user_id perm)
             in if db_project = None
                then (db, Inl (HTTPException 404 ''Project not found''))
                else if db_user_to_add = None
                then (db, Inl (HTTPException 404 ''User to add not found''))
                else if svc_get_user_project_permission svc db (user_id perm) pid \<noteq> None
                then (db, Inl (HTTPException 409
                                ''User already has permissions for this project''))
                else svc_create_user_project_permission svc db perm))"

section \<open>The role policy of the specification\<close>

text \<open>
  The specification orders the roles \<open>viewer < editor < admin\<close> and reads the strings of
  the source as these roles: \<^verbatim>\<open>'user_model_only'\<close>, \<^verbatim>\<open>'model_editor'\<close> and \<^verbatim>\<open>'admin'\<close>
  (the comment on \<^verbatim>\<open>permission_level\<close> in \<^verbatim>\<open>app/models.py\<close>). The source has no such
  order; these definitions follow the specification's words and serve to state what the
  gates of the endpoints, which compare strings, are claimed to implement.
\<close>

datatype role = Viewer | Editor | Admin

fun rank :: "role \<Rightarrow> nat" where
  "rank Viewer = 1"
| "rank Editor = 2"
| "rank Admin = 3"

definition satisfies :: "role \<Rightarrow> role \<Rightarrow> bool" where
  "satisfies r minimum = (rank minimum \<le> rank r)"

definition role_of_level :: "string \<Rightarrow> role option" where
  "role_of_level s =
     (if s = ''admin'' then Some Admin
      else if s = ''model_editor'' then Some Editor
      else if s = ''user_model_only'' then Some Viewer
      else None)"

section \<open>Integrity of the database\<close>

text \<open>
  The primary keys of \<^verbatim>\<open>app/models.py\<close>: no two projects share an \<open>id\<close>, no two
  permissions share \<open>(user_id, project_id)\<close>.
\<close>

definition primary_keys :: "store \<Rightarrow> bool" where
  "primary_keys db =
     (distinct (map Project_id (projects db)) \<and>
      distinct (map (\<lambda>q. (user_id q, project_id q)) (permissions db)))"

text \<open>
  The foreign keys of \<^verbatim>\<open>UserProjectPermission\<close>, as properties of a database: every
  permission names an existing project, and an existing user.
\<close>

definition permissions_name_projects :: "store \<Rightarrow> bool" where
  "permissions_name_projects db =
     list_all (\<lambda>q. project_id q \<in> set (map Project_id (projects db))) (permissions db)"

definition permissions_name_users :: "store \<Rightarrow> bool" where
  "permissions_name_users db =
     list_all (\<lambda>q. user_id q \<in> set (map User_id (users db))) (permissions db)"

section \<open>A database to run the functions on\<close>

text \<open>
  The database of \<^verbatim>\<open>test_get_user_projects\<close> in \<^verbatim>\<open>tests/crud/test_crud.py\<close>: user 1 created
  the private project 1 and the public project 2, user 2 created the private project 3 and
  was given \<^verbatim>\<open>'viewer'\<close> on project 1.
\<close>

definition example_db :: store where
  "example_db =
     \<lparr>users = [\<lparr>User_id = 1, username = ''user1'', email = None\<rparr>,
               \<lparr>User_id = 2, username = ''user2'', email = None\<rparr>],
      projects = [\<lparr>Project_id = 1, name = ''P1'', description = Some ''first'',
                   image_path = None, is_public = False\<rparr>,
                  \<lparr>Project_id = 2, name = ''P2'', description = None,
                   image_path = None, is_public = True\<rparr>,
                  \<lparr>Project_id = 3, name = ''P3'', description = None,
                   image_path = None, is_public = False\<rparr>],
      permissions = [\<lparr>user_id = 1, project_id = 1, permission_level = ''admin''\<rparr>,
                     \<lparr>user_id = 1, project_id = 2, permission_level = ''admin''\<rparr>,
                     \<lparr>user_id = 2, project_id = 3, permission_level = ''admin''\<rparr>,
                     \<lparr>user_id = 2, project_id = 1, permission_level = ''viewer''\<rparr>],
      foreign_keys = True\<rparr>"

text \<open>A request body that gives \<open>name\<close> and \<open>is_public\<close> and nothing else.\<close>

definition example_update :: project_base where
  "example_update =
     \<lparr>pb_name = ''Renamed'', pb_description = None, pb_image_path = None,
      pb_is_public = True, fields_set = {F_name, F_is_public}\<rparr>"

text \<open>A request body for a new private project.\<close>

definition example_project :: project_base where
  "example_project =
     \<lparr>pb_name = ''New'', pb_description = Some ''d'', pb_image_path = None,
      pb_is_public = False, fields_set = {F_name, F_description}\<rparr>"

text \<open>
  A database on a backend that does not check foreign keys, left with a permission on a
  project that does not exist.
\<close>

definition orphan_db :: store where
  "orphan_db =
     \<lparr>users = [\<lparr>User_id = 1, username = ''user1'', email = None\<rparr>],
      projects = [],
      permissions = [\<lparr>user_id = 1, project_id = 1, permission_level = ''admin''\<rparr>],
      foreign_keys = False\<rparr>"

section \<open>Lookups\<close>

lemma get_project_None_iff:
  "get_project db pid = None \<longleftrightarrow> pid \<notin> set (map Project_id (projects db))"
  by (auto simp: get_project_def find_None_iff)

lemma get_user_None_iff:
  "get_user db uid = None \<longleftrightarrow> uid \<notin> set (map User_id (users db))"
  by (auto simp: get_user_def find_None_iff)

lemma get_permission_None_iff:
  "get_user_project_permission db uid pid = None \<longleftrightarrow>
     (uid, pid) \<notin> set (map (\<lambda>q. (user_id q, project_id q)) (permissions db))"
  by (auto simp: get_user_project_permission_def find_None_iff)

lemma get_permission_SomeD:
  "get_user_project_permission db uid pid = Some g \<Longrightarrow>
     g \<in> set (permissions db) \<and> user_id g = uid \<and> project_id g = pid"
  by (auto simp: get_user_project_permission_def find_Some_iff)

section \<open>Partial update of a project\<close>

lemma patch_fields:
  "fold (\<lambda>kv p. setattr p kv) (model_dump_exclude_unset upd) x =
     x\<lparr>name := (if F_name \<in> fields_set upd then pb_name upd else name x),
       description :=
         (if F_description \<in> fields_set upd then pb_description upd else description x),
       image_path :=
         (if F_image_path \<in> fields_set upd then pb_image_path upd else image_path x),
       is_public := (if F_is_public \<in> fields_set upd then pb_is_public upd else is_public x)\<rparr>"
  by (simp add: model_dump_exclude_unset_def)

text \<open>
  Claim C7. When the project exists, \<open>update_project\<close> replaces its row by one with the same
  \<open>id\<close> in which each of \<open>name\<close>, \<open>description\<close>, \<open>image_path\<close> and \<open>is_public\<close> has the
  value of the request if the request gave that field, and its prior value otherwise; the
  rows of the other projects, the users and the permissions stay as they were. When no
  project has the id, \<open>update_project\<close> returns \<open>None\<close> (which the endpoint reports as
  404 Project not found) and the database it received.
\<close>

theorem update_project_partial:
  "(get_project db pid = None \<longrightarrow> update_project db pid upd = (db, None)) \<and>
   (\<forall>x. get_project db pid = Some x \<longrightarrow>
      (\<exists>x'. update_project db pid upd =
               (db\<lparr>projects := map (\<lambda>p. if Project_id p = pid then x' else p) (projects db)\<rparr>,
                Some x') \<and>
            Project_id x' = Project_id x \<and>
            name x' = (if F_name \<in> fields_set upd then pb_name upd else name x) \<and>
            description x' =
              (if F_description \<in> fields_set upd then pb_description upd else description x) \<and>
            image_path x' =
              (if F_image_path \<in> fields_set upd then pb_image_path upd else image_path x) \<and>
            is_public x' =
              (if F_is_public \<in> fields_set upd then pb_is_public upd else is_public x)))"
proof (intro conjI allI impI)
  assume "get_project db pid = None"
  then show "update_project db pid upd = (db, None)"
    by (simp add: update_project_def)
next
  fix x
  assume x: "get_project db pid = Some x"
  let ?x' = "fold (\<lambda>kv p. setattr p kv) (model_dump_exclude_unset upd) x"
  have "update_project db pid upd =
          (db\<lparr>projects := map (\<lambda>p. if Project_id p = pid then ?x' else p) (projects db)\<rparr>,
           Some ?x')"
    using x by (simp add: update_project_def Let_def)
  moreover have "Project_id ?x' = Project_id x"
    and "name ?x' = (if F_name \<in> fields_set upd then pb_name upd else name x)"
    and "description ?x' =
           (if F_description \<in> fields_set upd then pb_description upd else description x)"
    and "image_path ?x' =
           (if F_image_path \<in> fields_set upd then pb_image_path upd else image_path x)"
    and "is_public ?x' =
           (if F_is_public \<in> fields_set upd then pb_is_public upd else is_public x)"
    by (simp_all add: patch_fields)
  ultimately show "\<exists>x'. update_project db pid upd =
               (db\<lparr>projects := map (\<lambda>p. if Project_id p = pid then x' else p) (projects db)\<rparr>,
                Some x') \<and>
            Project_id x' = Project_id x \<and>
            name x' = (if F_name \<in> fields_set upd then pb_name upd else name x) \<and>
            description x' =
              (if F_description \<in> fields_set upd then pb_description upd else description x) \<and>
            image_path x' =
              (if F_image_path \<in> fields_set upd then pb_image_path upd else image_path x) \<and>
            is_public x' =
              (if F_is_public \<in> fields_set upd then pb_is_public upd else is_public x)"
    by blast
qed

theorem update_project_partial_witness:
  "get_project example_db 1 =
     Some \<lparr>Project_id = 1, name = ''P1'', description = Some ''first'', image_path = None,
           is_public = False\<rparr> \<and>
   snd (update_project example_db 1 example_update) =
     Some \<lparr>Project_id = 1, name = ''Renamed'', description = Some ''first'', image_path = None,
           is_public = True\<rparr> \<and>
   get_project example_db 9 = None \<and>
   update_project example_db 9 example_update = (example_db, None)"
proof -
  have here: "get_project example_db 1 =
     Some \<lparr>Project_id = 1, name = ''P1'', description = Some ''first'', image_path = None,
           is_public = False\<rparr>"
    by (simp add: get_project_def example_db_def)
  have absent: "get_project example_db 9 = None"
    by (simp add: get_project_def example_db_def)
  from update_project_partial [of example_db 1 example_update] here
  obtain x' where "snd (update_project example_db 1 example_update) = Some x'"
    and "Project_id x' = 1" and "name x' = ''Renamed''" and "description x' = Some ''first''"
    and "image_path x' = None" and "is_public x' = True"
    by (auto simp: example_update_def)
  then have "snd (update_project example_db 1 example_update) =
     Some \<lparr>Project_id = 1, name = ''Renamed'', description = Some ''first'', image_path = None,
           is_public = True\<rparr>"
    by (cases x') simp
  moreover from update_project_partial [of example_db 9 example_update] absent
  have "update_project example_db 9 example_update = (example_db, None)"
    by blast
  ultimately show ?thesis using here absent by simp
qed

section \<open>The permission checks of the endpoints\<close>

lemma missing_project_no_permission:
  assumes "permissions_name_projects db" and "get_project db pid = None"
  shows "get_user_project_permission db uid pid = None"
proof (rule ccontr)
  assume "get_user_project_permission db uid pid \<noteq> None"
  then obtain g where "get_user_project_permission db uid pid = Some g" by blast
  then have "g \<in> set (permissions db)" and "project_id g = pid"
    by (simp_all add: get_permission_SomeD)
  with assms(1) have "pid \<in> set (map Project_id (projects db))"
    by (auto simp: permissions_name_projects_def list_all_iff)
  with assms(2) show False by (simp add: get_project_None_iff)
qed

text \<open>
  Claim C9. In a database where every permission names an existing project, a project id
  that names no project gets 403 from the update and the delete endpoint, whoever calls:
  the permission is looked up first, and there is none. In such a database neither endpoint
  ever answers 404 Project not found.
\<close>

theorem missing_project_forbidden:
  assumes "permissions_name_projects db"
  shows "(get_project db pid = None \<longrightarrow>
            update_project_endpoint user_project_service pid upd uid db =
              (db, Inl (HTTPException 403
                         ''User does not have sufficient permissions to update this project'')) \<and>
            delete_project_endpoint user_project_service pid uid db =
              (db, Inl (HTTPException 403
                         ''User does not have sufficient permissions to delete this project''))) \<and>
         snd (update_project_endpoint user_project_service pid upd uid db) \<noteq>
           Inl (HTTPException 404 ''Project not found'') \<and>
         snd (delete_project_endpoint user_project_service pid uid db) \<noteq>
           Inl (HTTPException 404 ''Project not found'')"
proof (cases "get_project db pid")
  case None
  from missing_project_no_permission [OF assms None, of uid] None show ?thesis
    by (simp add: update_project_endpoint_def delete_project_endpoint_def
        user_project_service_def)
next
  case (Some x)
  then show ?thesis
    by (simp add: update_project_endpoint_def delete_project_endpoint_def
        user_project_service_def update_project_def delete_project_def Let_def
        split: option.split)
qed

theorem missing_project_forbidden_witness:
  "permissions_name_projects example_db \<and> get_project example_db 9 = None \<and>
   update_project_endpoint user_project_service 9 example_update 1 example_db =
     (example_db, Inl (HTTPException 403
                        ''User does not have sufficient permissions to update this project'')) \<and>
   delete_project_endpoint user_project_service 9 1 example_db =
     (example_db, Inl (HTTPException 403
                        ''User does not have sufficient permissions to delete this project''))"
proof -
  have inv: "permissions_name_projects example_db"
    by (simp add: permissions_name_projects_def example_db_def)
  have absent: "get_project example_db 9 = None"
    by (simp add: get_project_def example_db_def)
  from missing_project_forbidden [OF inv, of 9 example_update 1] inv absent
  show ?thesis by blast
qed

text \<open>
  Claim C5. The update endpoint answers 403 whenever the user has no permission row on the
  project, public or not. It lets the request through to \<open>update_project\<close> whenever the
  user's permission row carries a level that the specification reads as a role of rank at
  least editor, that is \<^verbatim>\<open>'model_editor'\<close> or \<^verbatim>\<open>'admin'\<close>.
\<close>

theorem update_gate_role:
  "(get_user_project_permission db uid pid = None \<longrightarrow>
      update_project_endpoint user_project_service pid upd uid db =
        (db, Inl (HTTPException 403
                   ''User does not have sufficient permissions to update this project''))) \<and>
   (\<forall>g r. get_user_project_permission db uid pid = Some g \<and>
          role_of_level (permission_level g) = Some r \<and> satisfies r Editor \<longrightarrow>
      update_project_endpoint user_project_service pid upd uid db =
        (case update_project db pid upd of
           (db', None) \<Rightarrow> (db', Inl (HTTPException 404 ''Project not found''))
         | (db', Some db_project) \<Rightarrow> (db', Inr db_project)))"
proof (intro conjI allI impI)
  assume "get_user_project_permission db uid pid = None"
  then show "update_project_endpoint user_project_service pid upd uid db =
        (db, Inl (HTTPException 403
                   ''User does not have sufficient permissions to update this project''))"
    by (simp add: update_project_endpoint_def user_project_service_def)
next
  fix g r
  assume a: "get_user_project_permission db uid pid = Some g \<and>
          role_of_level (permission_level g) = Some r \<and> satisfies r Editor"
  then have "permission_level g = ''admin'' \<or> permission_level g = ''model_editor''"
    by (cases r) (auto simp: role_of_level_def satisfies_def split: if_splits)
  with a show "update_project_endpoint user_project_service pid upd uid db =
        (case update_project db pid upd of
           (db', None) \<Rightarrow> (db', Inl (HTTPException 404 ''Project not found''))
         | (db', Some db_project) \<Rightarrow> (db', Inr db_project))"
    by (auto simp: update_project_endpoint_def user_project_service_def)
qed

theorem update_gate_role_witness:
  "get_project example_db 2 =
     Some \<lparr>Project_id = 2, name = ''P2'', description = None, image_path = None,
           is_public = True\<rparr> \<and>
   get_user_project_permission example_db 2 2 = None \<and>
   update_project_endpoint user_project_service 2 example_update 2 example_db =
     (example_db, Inl (HTTPException 403
                        ''User does not have sufficient permissions to update this project'')) \<and>
   get_user_project_permission example_db 1 2 =
     Some \<lparr>user_id = 1, project_id = 2, permission_level = ''admin''\<rparr> \<and>
   role_of_level ''admin'' = Some Admin \<and> satisfies Admin Editor \<and>
   snd (update_project_endpoint user_project_service 2 example_update 1 example_db) =
     Inr \<lparr>Project_id = 2, name = ''Renamed'', description = None, image_path = None,
          is_public = True\<rparr>"
proof -
  have p: "get_project example_db 2 =
     Some \<lparr>Project_id = 2, name = ''P2'', description = None, image_path = None,
           is_public = True\<rparr>"
    by (simp add: get_project_def example_db_def)
  have none: "get_user_project_permission example_db 2 2 = None"
    by (simp add: get_user_project_permission_def example_db_def)
  have some: "get_user_project_permission example_db 1 2 =
     Some \<lparr>user_id = 1, project_id = 2, permission_level = ''admin''\<rparr>"
    by (simp add: get_user_project_permission_def example_db_def)
  have r: "role_of_level ''admin'' = Some Admin" and s: "satisfies Admin Editor"
    by (simp_all add: role_of_level_def satisfies_def)
  have u: "snd (update_project example_db 2 example_update) =
     Some \<lparr>Project_id = 2, name = ''Renamed'', description = None, image_path = None,
           is_public = True\<rparr>"
    using p by (simp add: update_project_def patch_fields example_update_def Let_def)
  from update_gate_role [of example_db 2 2 example_update] none
  have "update_project_endpoint user_project_service 2 example_update 2 example_db =
     (example_db, Inl (HTTPException 403
                        ''User does not have sufficient permissions to update this project''))"
    by blast
  moreover from update_gate_role [of example_db 1 2 example_update] some r s
  have "update_project_endpoint user_project_service 2 example_update 1 example_db =
        (case update_project example_db 2 example_update of
           (db', None) \<Rightarrow> (db', Inl (HTTPException 404 ''Project not found''))
         | (db', Some db_project) \<Rightarrow> (db', Inr db_project))"
    by simp
  with u have "snd (update_project_endpoint user_project_service 2 example_update 1 example_db) =
     Inr \<lparr>Project_id = 2, name = ''Renamed'', description = None, image_path = None,
          is_public = True\<rparr>"
    by (cases "update_project example_db 2 example_update") simp
  ultimately show ?thesis using p none some r s by simp
qed

section \<open>The listing of a user's projects\<close>

lemma in_user_project_ids:
  "pid \<in> set (user_project_ids db uid) \<longleftrightarrow> get_user_project_permission db uid pid \<noteq> None"
  by (auto simp: user_project_ids_def get_permission_None_iff)

lemma permission_projects_eq:
  "permission_projects db uid =
     filter (\<lambda>p. get_user_project_permission db uid (Project_id p) \<noteq> None) (projects db)"
proof (cases "user_project_ids db uid = []")
  case True
  then have "\<And>pid. pid \<notin> set (user_project_ids db uid)" by simp
  then have "\<And>pid. get_user_project_permission db uid pid = None"
    by (simp add: in_user_project_ids)
  with True show ?thesis by (simp add: permission_projects_def)
next
  case False
  then show ?thesis by (simp add: permission_projects_def in_user_project_ids)
qed

lemma public_projects_eq:
  "public_projects db uid =
     filter (\<lambda>p. is_public p \<and> get_user_project_permission db uid (Project_id p) = None)
       (projects db)"
proof (cases "user_project_ids db uid = []")
  case True
  then have "\<And>pid. pid \<notin> set (user_project_ids db uid)" by simp
  then have "\<And>pid. get_user_project_permission db uid pid = None"
    by (simp add: in_user_project_ids)
  with True show ?thesis by (simp add: public_projects_def)
next
  case False
  then show ?thesis by (simp add: public_projects_def in_user_project_ids)
qed

lemma dict_fold_other:
  "k \<notin> set (map project_id xs) \<Longrightarrow>
     fold (\<lambda>perm d. d(project_id perm \<mapsto> permission_level perm)) xs m k = m k"
  by (induction xs arbitrary: m) auto

lemma dict_fold_distinct:
  "distinct (map project_id xs) \<Longrightarrow> g \<in> set xs \<Longrightarrow>
     fold (\<lambda>perm d. d(project_id perm \<mapsto> permission_level perm)) xs m (project_id g) =
       Some (permission_level g)"
proof (induction xs arbitrary: m)
  case Nil
  then show ?case by simp
next
  case (Cons x xs)
  show ?case
  proof (cases "g = x")
    case True
    from Cons.prems(1) have "project_id x \<notin> set (map project_id xs)" by simp
    from dict_fold_other [OF this, of "m(project_id x \<mapsto> permission_level x)"]
    have "fold (\<lambda>perm d. d(project_id perm \<mapsto> permission_level perm)) xs
            (m(project_id x \<mapsto> permission_level x)) (project_id x) =
          Some (permission_level x)"
      by simp
    then show ?thesis unfolding True by (simp only: fold_Cons comp_apply)
  next
    case False
    with Cons show ?thesis by simp
  qed
qed

lemma dict_fold_dom:
  "dom (fold (\<lambda>perm d. d(project_id perm \<mapsto> permission_level perm)) xs m) =
     dom m \<union> set (map project_id xs)"
  by (induction xs arbitrary: m) auto

lemma permission_dict_None_iff:
  "permission_dict db uid pid = None \<longleftrightarrow> get_user_project_permission db uid pid = None"
proof -
  have "dom (permission_dict db uid) = set (user_project_ids db uid)"
    by (simp add: permission_dict_def dict_fold_dom user_permissions_def user_project_ids_def)
  then have "permission_dict db uid pid = None \<longleftrightarrow> pid \<notin> set (user_project_ids db uid)"
    by (metis domIff)
  then show ?thesis by (simp add: in_user_project_ids)
qed

lemma user_permissions_distinct:
  assumes "primary_keys db"
  shows "distinct (map project_id (user_permissions db uid))"
proof -
  have "distinct (map (\<lambda>q. (user_id q, project_id q)) (user_permissions db uid))"
    using assms by (simp add: primary_keys_def user_permissions_def distinct_map_filter)
  then have d: "distinct (user_permissions db uid)"
    and i: "inj_on (\<lambda>q. (user_id q, project_id q)) (set (user_permissions db uid))"
    by (simp_all add: distinct_map)
  have "inj_on project_id (set (user_permissions db uid))"
  proof (rule inj_onI)
    fix a b
    assume "a \<in> set (user_permissions db uid)" "b \<in> set (user_permissions db uid)"
      and "project_id a = project_id b"
    moreover from this have "user_id a = user_id b" by (simp add: user_permissions_def)
    ultimately show "a = b" using i by (auto dest: inj_onD)
  qed
  with d show ?thesis by (simp add: distinct_map)
qed

lemma permission_dict_Some:
  assumes "primary_keys db" and "g \<in> set (permissions db)" and "user_id g = uid"
  shows "permission_dict db uid (project_id g) = Some (permission_level g)"
proof -
  from assms(2,3) have "g \<in> set (user_permissions db uid)"
    by (simp add: user_permissions_def)
  with user_permissions_distinct [OF assms(1), of uid] show ?thesis
    by (simp add: permission_dict_def dict_fold_distinct)
qed

lemma get_user_projects_split:
  "get_user_projects db uid =
     map (\<lambda>p. project_dict p (the (permission_dict db uid (Project_id p))))
       (filter (\<lambda>p. get_user_project_permission db uid (Project_id p) \<noteq> None) (projects db)) @
     map (\<lambda>p. project_dict p ''public_access'')
       (filter (\<lambda>p. is_public p \<and> get_user_project_permission db uid (Project_id p) = None)
          (projects db))"
proof -
  have "map (\<lambda>p. project_dict p (case permission_dict db uid (Project_id p) of
                   Some level \<Rightarrow> level | None \<Rightarrow> ''public_access'')) (permission_projects db uid)
        = map (\<lambda>p. project_dict p (the (permission_dict db uid (Project_id p))))
            (permission_projects db uid)"
    by (rule map_cong) (auto simp: permission_projects_eq permission_dict_None_iff [symmetric])
  moreover have "map (\<lambda>p. project_dict p (case permission_dict db uid (Project_id p) of
                   Some level \<Rightarrow> level | None \<Rightarrow> ''public_access'')) (public_projects db uid)
        = map (\<lambda>p. project_dict p ''public_access'') (public_projects db uid)"
    by (rule map_cong) (auto simp: public_projects_eq permission_dict_None_iff [symmetric])
  ultimately have "get_user_projects db uid =
      map (\<lambda>p. project_dict p (the (permission_dict db uid (Project_id p))))
        (permission_projects db uid) @
      map (\<lambda>p. project_dict p ''public_access'') (public_projects db uid)"
    unfolding get_user_projects_def map_append by (rule arg_cong2)
  then show ?thesis
    by (simp only: permission_projects_eq public_projects_eq)
qed

lemma data_id_project_dict [simp]: "data_id (project_dict p l) = Project_id p"
  by (simp add: project_dict_def)

lemma listed_projects_exist:
  "set (map data_id (get_user_projects db uid)) \<subseteq> set (map Project_id (projects db))"
  by (auto simp: get_user_projects_split)

lemma example_listing:
  "get_user_projects example_db 2 =
     [\<lparr>data_id = 1, data_name = ''P1'', data_description = Some ''first'',
       data_image_path = None, data_is_public = False, data_permission_level = ''viewer''\<rparr>,
      \<lparr>data_id = 3, data_name = ''P3'', data_description = None,
       data_image_path = None, data_is_public = False, data_permission_level = ''admin''\<rparr>,
      \<lparr>data_id = 2, data_name = ''P2'', data_description = None,
       data_image_path = None, data_is_public = True,
       data_permission_level = ''public_access''\<rparr>]"
  by (simp add: get_user_projects_def permission_projects_def public_projects_def
      user_project_ids_def permission_dict_def user_permissions_def project_dict_def
      example_db_def)

text \<open>
  Claim C1. In a database that respects the primary keys, the list of \<open>get_user_projects\<close>
  has no project id twice; for every project and every permission row of the user on it,
  the list holds the project's dictionary with that row's level; a public project on which
  the user has no permission row is listed with \<^verbatim>\<open>'public_access'\<close>; a private project on
  which the user has no permission row is not listed.
\<close>

theorem get_user_projects_partition:
  assumes "primary_keys db"
  shows "distinct (map data_id (get_user_projects db uid)) \<and>
         (\<forall>p\<in>set (projects db).
            (\<forall>g\<in>set (permissions db).
               user_id g = uid \<and> project_id g = Project_id p \<longrightarrow>
               project_dict p (permission_level g) \<in> set (get_user_projects db uid)) \<and>
            (get_user_project_permission db uid (Project_id p) = None \<and> is_public p \<longrightarrow>
               project_dict p ''public_access'' \<in> set (get_user_projects db uid)) \<and>
            (get_user_project_permission db uid (Project_id p) = None \<and> \<not> is_public p \<longrightarrow>
               Project_id p \<notin> set (map data_id (get_user_projects db uid))))"
proof (intro conjI ballI impI)
  let ?granted = "filter (\<lambda>p. get_user_project_permission db uid (Project_id p) \<noteq> None)
                    (projects db)"
  let ?public = "filter (\<lambda>p. is_public p \<and>
                               get_user_project_permission db uid (Project_id p) = None)
                   (projects db)"
  have ids: "map data_id (get_user_projects db uid) = map Project_id ?granted @ map Project_id ?public"
    by (simp add: get_user_projects_split comp_def)
  from assms have d: "distinct (map Project_id (projects db))"
    by (simp add: primary_keys_def)
  have "set (map Project_id ?granted) \<inter> set (map Project_id ?public) = {}"
    by auto
  with d show "distinct (map data_id (get_user_projects db uid))"
    unfolding ids by (simp only: distinct_append distinct_map_filter simp_thms)
next
  fix p g
  assume p: "p \<in> set (projects db)" and g: "g \<in> set (permissions db)"
    and *: "user_id g = uid \<and> project_id g = Project_id p"
  then have "permission_dict db uid (Project_id p) = Some (permission_level g)"
    using permission_dict_Some [OF assms g, of uid] by simp
  moreover from this have "get_user_project_permission db uid (Project_id p) \<noteq> None"
    by (simp add: permission_dict_None_iff [symmetric])
  ultimately show "project_dict p (permission_level g) \<in> set (get_user_projects db uid)"
    using p by (force simp: get_user_projects_split)
next
  fix p
  assume "p \<in> set (projects db)"
    and "get_user_project_permission db uid (Project_id p) = None \<and> is_public p"
  then show "project_dict p ''public_access'' \<in> set (get_user_projects db uid)"
    by (force simp: get_user_projects_split)
next
  fix p
  assume "p \<in> set (projects db)"
    and *: "get_user_project_permission db uid (Project_id p) = None \<and> \<not> is_public p"
  have ids: "map data_id (get_user_projects db uid) =
      map Project_id (filter (\<lambda>p. get_user_project_permission db uid (Project_id p) \<noteq> None)
                    (projects db)) @
      map Project_id (filter (\<lambda>p. is_public p \<and>
                               get_user_project_permission db uid (Project_id p) = None)
                   (projects db))"
    by (simp add: get_user_projects_split comp_def)
  from assms have d: "distinct (map Project_id (projects db))"
    by (simp add: primary_keys_def)
  show "Project_id p \<notin> set (map data_id (get_user_projects db uid))"
  proof
    assume "Project_id p \<in> set (map data_id (get_user_projects db uid))"
    then obtain q where q: "q \<in> set (projects db)" "Project_id q = Project_id p"
      and "get_user_project_permission db uid (Project_id q) \<noteq> None \<or> is_public q"
      unfolding ids by auto
    moreover from d q \<open>p \<in> set (projects db)\<close> have "q = p"
      by (meson distinct_map inj_onD)
    ultimately show False using * by simp
  qed
qed

theorem get_user_projects_partition_witness:
  "primary_keys example_db \<and>
   get_user_projects example_db 2 =
     [\<lparr>data_id = 1, data_name = ''P1'', data_description = Some ''first'',
       data_image_path = None, data_is_public = False, data_permission_level = ''viewer''\<rparr>,
      \<lparr>data_id = 3, data_name = ''P3'', data_description = None,
       data_image_path = None, data_is_public = False, data_permission_level = ''admin''\<rparr>,
      \<lparr>data_id = 2, data_name = ''P2'', data_description = None,
       data_image_path = None, data_is_public = True,
       data_permission_level = ''public_access''\<rparr>] \<and>
   distinct (map data_id (get_user_projects example_db 2)) \<and>
   get_user_project_permission example_db 1 3 = None \<and>
   3 \<notin> set (map data_id (get_user_projects example_db 1))"
proof -
  have pk: "primary_keys example_db"
    by (simp add: primary_keys_def example_db_def)
  note l = example_listing
  have none: "get_user_project_permission example_db 1 3 = None"
    by (simp add: get_user_project_permission_def example_db_def)
  have p3: "\<lparr>Project_id = 3, name = ''P3'', description = None, image_path = None,
             is_public = False\<rparr> \<in> set (projects example_db)"
    by (simp add: example_db_def)
  from get_user_projects_partition [OF pk, of 2]
  have "distinct (map data_id (get_user_projects example_db 2))" by blast
  moreover from get_user_projects_partition [OF pk, of 1] p3 none
  have "3 \<notin> set (map data_id (get_user_projects example_db 1))" by fastforce
  ultimately show ?thesis using pk l none by simp
qed

lemma listed_granted_iff:
  "i < length (get_user_projects db uid) \<Longrightarrow>
     get_user_project_permission db uid (data_id (get_user_projects db uid ! i)) \<noteq> None \<longleftrightarrow>
       i < length (permission_projects db uid)"
proof -
  assume i: "i < length (get_user_projects db uid)"
  let ?A = "permission_projects db uid" and ?B = "public_projects db uid"
  have ids: "map data_id (get_user_projects db uid) = map Project_id (?A @ ?B)"
    by (simp add: get_user_projects_def comp_def)
  from i have len: "i < length (?A @ ?B)" by (simp add: get_user_projects_def)
  from i have nth: "data_id (get_user_projects db uid ! i) = Project_id ((?A @ ?B) ! i)"
    using ids by (metis length_map nth_map)
  show ?thesis
  proof (cases "i < length ?A")
    case True
    then have "(?A @ ?B) ! i \<in> set ?A" by (simp add: nth_append)
    then have "get_user_project_permission db uid (Project_id ((?A @ ?B) ! i)) \<noteq> None"
      by (simp add: permission_projects_eq)
    with True nth show ?thesis by simp
  next
    case False
    with len have "(?A @ ?B) ! i \<in> set ?B" by (simp add: nth_append)
    then have "get_user_project_permission db uid (Project_id ((?A @ ?B) ! i)) = None"
      by (simp add: public_projects_eq)
    with False nth show ?thesis by simp
  qed
qed

text \<open>
  Claim C8. The list of \<open>get_user_projects\<close> is the projects of the user's permission rows
  followed by the public projects without one: an entry on which the user has a
  permission row stands before every entry on which the user has none. Inside each group
  the entries stand in the order in which the query returned them, of which nothing is
  stated here.
\<close>

theorem explicit_precede_public:
  "\<forall>i j. i < length (get_user_projects db uid) \<and> j < length (get_user_projects db uid) \<and>
          get_user_project_permission db uid (data_id (get_user_projects db uid ! i)) \<noteq> None \<and>
          get_user_project_permission db uid (data_id (get_user_projects db uid ! j)) = None
          \<longrightarrow> i < j"
proof (intro allI impI)
  fix i j
  assume a: "i < length (get_user_projects db uid) \<and> j < length (get_user_projects db uid) \<and>
          get_user_project_permission db uid (data_id (get_user_projects db uid ! i)) \<noteq> None \<and>
          get_user_project_permission db uid (data_id (get_user_projects db uid ! j)) = None"
  then have "i < length (permission_projects db uid)"
    using listed_granted_iff [of i db uid] by simp
  moreover from a have "\<not> j < length (permission_projects db uid)"
    using listed_granted_iff [of j db uid] by simp
  ultimately show "i < j" by simp
qed

theorem explicit_precede_public_witness:
  "(1::nat) < length (get_user_projects example_db 2) \<and>
   (2::nat) < length (get_user_projects example_db 2) \<and>
   get_user_project_permission example_db 2 (data_id (get_user_projects example_db 2 ! 1)) =
     Some \<lparr>user_id = 2, project_id = 3, permission_level = ''admin''\<rparr> \<and>
   get_user_project_permission example_db 2 (data_id (get_user_projects example_db 2 ! 2)) = None \<and>
   (1::nat) < 2"
proof -
  have len: "(1::nat) < length (get_user_projects example_db 2)"
    "(2::nat) < length (get_user_projects example_db 2)"
    by (simp_all add: example_listing)
  have e1: "data_id (get_user_projects example_db 2 ! 1) = 3"
    and e2: "data_id (get_user_projects example_db 2 ! 2) = 2"
    by (simp_all add: example_listing)
  have g1: "get_user_project_permission example_db 2
              (data_id (get_user_projects example_db 2 ! 1)) =
            Some \<lparr>user_id = 2, project_id = 3, permission_level = ''admin''\<rparr>"
    unfolding e1 by (simp add: get_user_project_permission_def example_db_def)
  have g2: "get_user_project_permission example_db 2
              (data_id (get_user_projects example_db 2 ! 2)) = None"
    unfolding e2 by (simp add: get_user_project_permission_def example_db_def)
  from explicit_precede_public [of example_db 2, rule_format, of 1 2] len g1 g2
  have "(1::nat) < 2" by simp
  with len g1 g2 show ?thesis by simp
qed

text \<open>
  Claim C6 as stated fails: the endpoint that serves the listing looks the user up first
  and raises 404 for an identifier that names no user, although \<open>get_user_projects\<close>
  itself would return the public projects.
\<close>

theorem listing_unknown_user_counterexample:
  "get_user example_db 7 = None \<and>
   read_user_projects_endpoint user_project_service 7 example_db =
     Inl (HTTPException 404 ''User not found'') \<and>
   get_user_projects example_db 7 =
     [\<lparr>data_id = 2, data_name = ''P2'', data_description = None, data_image_path = None,
       data_is_public = True, data_permission_level = ''public_access''\<rparr>]"
  by (simp add: read_user_projects_endpoint_def user_project_service_def get_user_def
      get_user_projects_def permission_projects_def public_projects_def
      user_project_ids_def permission_dict_def user_permissions_def project_dict_def
      example_db_def)

lemma no_permissions_public_only:
  assumes "user_project_ids db uid = []"
  shows "get_user_projects db uid =
           map (\<lambda>p. project_dict p ''public_access'') (filter is_public (projects db))"
proof -
  from assms have "\<And>pid. pid \<notin> set (user_project_ids db uid)" by simp
  then have "\<And>pid. get_user_project_permission db uid pid = None"
    by (simp add: in_user_project_ids)
  then show ?thesis by (simp add: get_user_projects_split)
qed

lemma unknown_user_no_permissions:
  assumes "permissions_name_users db" and "get_user db uid = None"
  shows "user_project_ids db uid = []"
proof -
  from assms(2) have "uid \<notin> set (map User_id (users db))"
    by (auto simp: get_user_def find_None_iff)
  with assms(1) have "\<forall>q\<in>set (permissions db). user_id q \<noteq> uid"
    by (auto simp: permissions_name_users_def list_all_iff)
  then show ?thesis by (simp add: user_project_ids_def filter_empty_conv)
qed

text \<open>
  Claim C6, amended. \<open>get_user_projects\<close> is a total function of the database and the user
  identifier, and in a database where every permission names an existing user it returns,
  for an identifier that names no user, exactly the public projects, each with
  \<^verbatim>\<open>'public_access'\<close>. The endpoint \<open>read_user_projects_endpoint\<close> returns that list only
  for an existing user; for an identifier that names no user it raises 404 User not found.
\<close>

theorem listing_rejects_unknown_user:
  "(get_user db uid = None \<longrightarrow>
      read_user_projects_endpoint user_project_service uid db =
        Inl (HTTPException 404 ''User not found'')) \<and>
   (get_user db uid \<noteq> None \<longrightarrow>
      read_user_projects_endpoint user_project_service uid db =
        Inr (get_user_projects db uid)) \<and>
   (permissions_name_users db \<and> get_user db uid = None \<longrightarrow>
      get_user_projects db uid =
        map (\<lambda>p. project_dict p ''public_access'') (filter is_public (projects db)))"
proof (intro conjI impI)
  assume "get_user db uid = None"
  then show "read_user_projects_endpoint user_project_service uid db =
        Inl (HTTPException 404 ''User not found'')"
    by (simp add: read_user_projects_endpoint_def user_project_service_def)
next
  assume "get_user db uid \<noteq> None"
  then show "read_user_projects_endpoint user_project_service uid db =
        Inr (get_user_projects db uid)"
    by (auto simp: read_user_projects_endpoint_def user_project_service_def)
next
  assume "permissions_name_users db \<and> get_user db uid = None"
  then have "user_project_ids db uid = []"
    by (simp add: unknown_user_no_permissions)
  then show "get_user_projects db uid =
        map (\<lambda>p. project_dict p ''public_access'') (filter is_public (projects db))"
    by (rule no_permissions_public_only)
qed

theorem listing_rejects_unknown_user_witness:
  "get_user example_db 7 = None \<and> permissions_name_users example_db \<and>
   read_user_projects_endpoint user_project_service 7 example_db =
     Inl (HTTPException 404 ''User not found'') \<and>
   get_user_projects example_db 7 =
     map (\<lambda>p. project_dict p ''public_access'') (filter is_public (projects example_db)) \<and>
   get_user example_db 2 = Some \<lparr>User_id = 2, username = ''user2'', email = None\<rparr> \<and>
   read_user_projects_endpoint user_project_service 2 example_db =
     Inr (get_user_projects example_db 2)"
proof -
  have unknown: "get_user example_db 7 = None"
    by (simp add: get_user_def example_db_def)
  have known: "get_user example_db 2 = Some \<lparr>User_id = 2, username = ''user2'', email = None\<rparr>"
    by (simp add: get_user_def example_db_def)
  have inv: "permissions_name_users example_db"
    by (simp add: permissions_name_users_def example_db_def)
  from listing_rejects_unknown_user [of example_db 7] unknown inv
  have "read_user_projects_endpoint user_project_service 7 example_db =
          Inl (HTTPException 404 ''User not found'')"
    and "get_user_projects example_db 7 =
          map (\<lambda>p. project_dict p ''public_access'') (filter is_public (projects example_db))"
    by blast+
  moreover from listing_rejects_unknown_user [of example_db 2] known
  have "read_user_projects_endpoint user_project_service 2 example_db =
          Inr (get_user_projects example_db 2)"
    by simp
  ultimately show ?thesis using unknown known inv by simp
qed

section \<open>Deleting a project\<close>

text \<open>
  Claim C4. When the project exists, \<open>delete_project\<close> returns it and commits a database
  in which no project has its id, no permission row names it, \<open>get_user_project_permission\<close>
  finds nothing on it for any user, and no user's listing contains it. When no project has
  the id, \<open>delete_project\<close> returns \<open>None\<close> and the database it received; the endpoint then
  changes nothing either, and for a caller who passed its \<^verbatim>\<open>'admin'\<close> check it raises
  404 Project not found.
\<close>

theorem delete_project_cascade:
  "(get_project db pid = None \<longrightarrow> delete_project db pid = (db, None)) \<and>
   (\<forall>x. get_project db pid = Some x \<longrightarrow>
      snd (delete_project db pid) = Some x \<and>
      get_project (fst (delete_project db pid)) pid = None \<and>
      (\<forall>q\<in>set (permissions (fst (delete_project db pid))). project_id q \<noteq> pid) \<and>
      (\<forall>u. get_user_project_permission (fst (delete_project db pid)) u pid = None) \<and>
      (\<forall>u. pid \<notin> set (map data_id (get_user_projects (fst (delete_project db pid)) u)))) \<and>
   (get_project db pid = None \<longrightarrow>
      fst (delete_project_endpoint user_project_service pid uid db) = db) \<and>
   (\<forall>g. get_project db pid = None \<and> get_user_project_permission db uid pid = Some g \<and>
        permission_level g = ''admin'' \<longrightarrow>
      delete_project_endpoint user_project_service pid uid db =
        (db, Inl (HTTPException 404 ''Project not found'')))"
proof (intro conjI allI impI)
  assume "get_project db pid = None"
  then show "delete_project db pid = (db, None)"
    by (simp add: delete_project_def)
next
  assume "get_project db pid = None"
  then have "delete_project db pid = (db, None)"
    by (simp add: delete_project_def)
  then show "fst (delete_project_endpoint user_project_service pid uid db) = db"
    by (simp add: delete_project_endpoint_def user_project_service_def split: option.split)
next
  fix g
  assume a: "get_project db pid = None \<and> get_user_project_permission db uid pid = Some g \<and>
        permission_level g = ''admin''"
  then have "delete_project db pid = (db, None)"
    by (simp add: delete_project_def)
  with a show "delete_project_endpoint user_project_service pid uid db =
        (db, Inl (HTTPException 404 ''Project not found''))"
    by (simp add: delete_project_endpoint_def user_project_service_def)
next
  fix x
  assume x: "get_project db pid = Some x"
  let ?db' = "db\<lparr>permissions := filter (\<lambda>perm. project_id perm \<noteq> pid) (permissions db),
                   projects := filter (\<lambda>p. Project_id p \<noteq> pid) (projects db)\<rparr>"
  from x have del: "delete_project db pid = (?db', Some x)"
    by (simp add: delete_project_def)
  show "snd (delete_project db pid) = Some x" by (simp add: del)
  show gone: "get_project (fst (delete_project db pid)) pid = None"
    by (auto simp: del get_project_None_iff)
  show "\<forall>q\<in>set (permissions (fst (delete_project db pid))). project_id q \<noteq> pid"
    by (simp add: del)
  show "get_user_project_permission (fst (delete_project db pid)) u pid = None" for u
    by (auto simp: del get_permission_None_iff)
  show "pid \<notin> set (map data_id (get_user_projects (fst (delete_project db pid)) u))" for u
    using gone listed_projects_exist [of "fst (delete_project db pid)" u]
    by (auto simp: get_project_None_iff)
qed

theorem delete_project_cascade_witness:
  "get_project example_db 1 =
     Some \<lparr>Project_id = 1, name = ''P1'', description = Some ''first'', image_path = None,
           is_public = False\<rparr> \<and>
   get_user_project_permission example_db 2 1 =
     Some \<lparr>user_id = 2, project_id = 1, permission_level = ''viewer''\<rparr> \<and>
   get_user_project_permission (fst (delete_project example_db 1)) 2 1 = None \<and>
   1 \<notin> set (map data_id (get_user_projects (fst (delete_project example_db 1)) 2)) \<and>
   get_project (fst (delete_project example_db 1)) 1 = None \<and>
   get_project example_db 9 = None \<and>
   delete_project example_db 9 = (example_db, None) \<and>
   get_project orphan_db 1 = None \<and>
   get_user_project_permission orphan_db 1 1 =
     Some \<lparr>user_id = 1, project_id = 1, permission_level = ''admin''\<rparr> \<and>
   delete_project_endpoint user_project_service 1 1 orphan_db =
     (orphan_db, Inl (HTTPException 404 ''Project not found''))"
proof -
  have orphan: "get_project orphan_db 1 = None"
    "get_user_project_permission orphan_db 1 1 =
     Some \<lparr>user_id = 1, project_id = 1, permission_level = ''admin''\<rparr>"
    by (simp_all add: get_project_def get_user_project_permission_def orphan_db_def)
  from delete_project_cascade [of orphan_db 1 1] orphan
  have nf: "delete_project_endpoint user_project_service 1 1 orphan_db =
     (orphan_db, Inl (HTTPException 404 ''Project not found''))"
    by simp
  have here: "get_project example_db 1 =
     Some \<lparr>Project_id = 1, name = ''P1'', description = Some ''first'', image_path = None,
           is_public = False\<rparr>"
    by (simp add: get_project_def example_db_def)
  have held: "get_user_project_permission example_db 2 1 =
     Some \<lparr>user_id = 2, project_id = 1, permission_level = ''viewer''\<rparr>"
    by (simp add: get_user_project_permission_def example_db_def)
  have absent: "get_project example_db 9 = None"
    by (simp add: get_project_def example_db_def)
  from delete_project_cascade [of example_db 1] here
  have "get_user_project_permission (fst (delete_project example_db 1)) 2 1 = None"
    and "1 \<notin> set (map data_id (get_user_projects (fst (delete_project example_db 1)) 2))"
    and "get_project (fst (delete_project example_db 1)) 1 = None"
    by blast+
  moreover from delete_project_cascade [of example_db 9] absent
  have "delete_project example_db 9 = (example_db, None)"
    by blast
  ultimately show ?thesis using here held absent orphan nf by simp
qed

section \<open>Creating a project\<close>

lemma fold_max_upper: "x \<in> set xs \<Longrightarrow> x \<le> fold max xs (a::int)"
proof (induction xs arbitrary: a)
  case Nil
  then show ?case by simp
next
  case (Cons y ys)
  have mono: "b \<le> fold max ys b" for b :: int
    by (induction ys arbitrary: b) (auto intro: order_trans [OF max.cobounded2])
  show ?case
  proof (cases "x = y")
    case True
    have "y \<le> max y a" by simp
    also have "\<dots> \<le> fold max ys (max y a)" by (rule mono)
    finally show ?thesis using True by simp
  next
    case False
    with Cons show ?thesis by simp
  qed
qed

lemma next_project_id_fresh: "next_project_id db \<notin> set (map Project_id (projects db))"
proof
  assume "next_project_id db \<in> set (map Project_id (projects db))"
  then have "next_project_id db \<le> fold max (map Project_id (projects db)) 0"
    by (rule fold_max_upper)
  then show False by (simp add: next_project_id_def)
qed

text \<open>
  Claim C2. \<open>create_project\<close> either commits the database extended by exactly the new
  project, under an id no project had, and the permission row (creator, new project,
  \<^verbatim>\<open>'admin'\<close>), or raises and commits nothing. Either way every project of the resulting
  database that was not there before has the creator's \<^verbatim>\<open>'admin'\<close> row.
\<close>

theorem create_project_atomic:
  "((\<exists>p. create_project db project uid =
           (db\<lparr>projects := projects db @ [p],
               permissions := permissions db @
                 [\<lparr>user_id = uid, project_id = Project_id p, permission_level = ''admin''\<rparr>]\<rparr>,
            Inr p) \<and>
         Project_id p \<notin> set (map Project_id (projects db))) \<or>
    create_project db project uid = (db, Inl IntegrityError)) \<and>
   (\<forall>p\<in>set (projects (fst (create_project db project uid))).
      p \<in> set (projects db) \<or>
      \<lparr>user_id = uid, project_id = Project_id p, permission_level = ''admin''\<rparr>
        \<in> set (permissions (fst (create_project db project uid))))"
proof -
  let ?p = "\<lparr>Project_id = next_project_id db, name = pb_name project,
             description = pb_description project, image_path = None,
             is_public = pb_is_public project\<rparr>"
  let ?g = "\<lparr>user_id = uid, project_id = next_project_id db, permission_level = ''admin''\<rparr>"
  let ?flushed = "db\<lparr>projects := projects db @ [?p]\<rparr>"
  have ins: "insert_project db ?p = Inr ?flushed"
    using next_project_id_fresh [of db] by (simp add: insert_project_def)
  show ?thesis
  proof (cases "insert_permission ?flushed ?g")
    case (Inl e)
    then have "e = IntegrityError"
      by (auto simp: insert_permission_def split: if_splits)
    with Inl ins have "create_project db project uid = (db, Inl IntegrityError)"
      by (simp add: create_project_def Let_def)
    then show ?thesis by simp
  next
    case (Inr committed)
    then have c: "committed = ?flushed\<lparr>permissions := permissions db @ [?g]\<rparr>"
      by (auto simp: insert_permission_def split: if_splits)
    from Inr ins have "create_project db project uid = (committed, Inr ?p)"
      by (simp add: create_project_def Let_def)
    with c have eq: "create_project db project uid =
           (db\<lparr>projects := projects db @ [?p],
               permissions := permissions db @
                 [\<lparr>user_id = uid, project_id = Project_id ?p, permission_level = ''admin''\<rparr>]\<rparr>,
            Inr ?p)"
      by simp
    moreover have "Project_id ?p \<notin> set (map Project_id (projects db))"
      using next_project_id_fresh [of db] by simp
    ultimately have "\<exists>p. create_project db project uid =
           (db\<lparr>projects := projects db @ [p],
               permissions := permissions db @
                 [\<lparr>user_id = uid, project_id = Project_id p, permission_level = ''admin''\<rparr>]\<rparr>,
            Inr p) \<and>
         Project_id p \<notin> set (map Project_id (projects db))"
      by blast
    moreover have "\<forall>p\<in>set (projects (fst (create_project db project uid))).
      p \<in> set (projects db) \<or>
      \<lparr>user_id = uid, project_id = Project_id p, permission_level = ''admin''\<rparr>
        \<in> set (permissions (fst (create_project db project uid)))"
      unfolding eq by auto
    ultimately show ?thesis by blast
  qed
qed

theorem create_project_atomic_witness:
  "snd (create_project example_db example_project 1) =
     Inr \<lparr>Project_id = 4, name = ''New'', description = Some ''d'', image_path = None,
          is_public = False\<rparr> \<and>
   \<lparr>user_id = 1, project_id = 4, permission_level = ''admin''\<rparr>
     \<in> set (permissions (fst (create_project example_db example_project 1))) \<and>
   create_project example_db example_project 9 = (example_db, Inl IntegrityError)"
  using create_project_atomic [of example_db example_project 1]
    create_project_atomic [of example_db example_project 9]
  by (simp add: create_project_def insert_project_def insert_permission_def next_project_id_def
      example_db_def example_project_def Let_def)

text \<open>
  The transaction does commit when every permission names an existing project and the
  creator exists (or the backend does not check).
\<close>

lemma create_project_succeeds:
  assumes "permissions_name_projects db"
    and "foreign_keys db \<longrightarrow> get_user db uid \<noteq> None"
  shows "\<exists>p. snd (create_project db project uid) = Inr p"
proof -
  let ?p = "\<lparr>Project_id = next_project_id db, name = pb_name project,
             description = pb_description project, image_path = None,
             is_public = pb_is_public project\<rparr>"
  have ins: "insert_project db ?p = Inr (db\<lparr>projects := projects db @ [?p]\<rparr>)"
    using next_project_id_fresh [of db] by (simp add: insert_project_def)
  have "(uid, next_project_id db) \<notin> set (map (\<lambda>q. (user_id q, project_id q)) (permissions db))"
    using assms(1) next_project_id_fresh [of db]
    by (auto simp: permissions_name_projects_def list_all_iff)
  moreover from assms(2) have "foreign_keys db \<longrightarrow> uid \<in> set (map User_id (users db))"
    by (auto simp: get_user_def find_None_iff)
  ultimately show ?thesis
    using ins by (auto simp: create_project_def insert_permission_def Let_def)
qed

section \<open>Permission rows\<close>

lemma find_append_last: "find P xs = None \<Longrightarrow> P x \<Longrightarrow> find P (xs @ [x]) = Some x"
  by (induction xs) (auto split: if_splits)

lemma find_map_replace:
  "find P xs = Some g \<Longrightarrow> P u \<Longrightarrow> find P (map (\<lambda>q. if P q then u else q) xs) = Some u"
  by (induction xs) (auto split: if_splits)

lemma permission_rebuild:
  "\<lparr>user_id = user_id perm, project_id = project_id perm,
    permission_level = permission_level perm\<rparr> = (perm :: permission)"
  by (cases perm) simp

lemma create_permission_insert:
  "create_user_project_permission db perm =
     (case insert_permission db perm of
        Inl e \<Rightarrow> (db, Inl e)
      | Inr committed \<Rightarrow> (committed, Inr perm))"
  by (simp add: create_user_project_permission_def permission_rebuild)

lemma create_permission_fresh:
  assumes "get_user_project_permission db (user_id perm) (project_id perm) = None"
    and "foreign_keys db \<longrightarrow>
           get_user db (user_id perm) \<noteq> None \<and> get_project db (project_id perm) \<noteq> None"
  shows "create_user_project_permission db perm =
           (db\<lparr>permissions := permissions db @ [perm]\<rparr>, Inr perm)"
  using assms
  by (simp add: create_permission_insert insert_permission_def
      get_permission_None_iff get_user_None_iff get_project_None_iff)

lemma create_permission_taken:
  assumes "get_user_project_permission db (user_id perm) (project_id perm) \<noteq> None"
  shows "create_user_project_permission db perm = (db, Inl IntegrityError)"
  using assms
  by (simp add: create_permission_insert insert_permission_def
      get_permission_None_iff)

text \<open>
  Claim C10. \<open>create_user_project_permission\<close> commits the row it is given whenever the
  primary key is free (and, on a backend that checks foreign keys, the user and the project
  exist): no condition is on the level, and the row found afterwards carries the level as
  given. \<open>update_user_project_permission\<close> on an existing row stores the level it is given,
  whatever the string. The endpoints then decide by comparing the stored string: the update
  endpoint answers 403 exactly when it is neither \<^verbatim>\<open>'admin'\<close> nor \<^verbatim>\<open>'model_editor'\<close>, the
  delete endpoint exactly when it is not \<^verbatim>\<open>'admin'\<close>.
\<close>

theorem permission_level_unvalidated:
  "(get_user_project_permission db (user_id perm) (project_id perm) = None \<and>
    (foreign_keys db \<longrightarrow>
       get_user db (user_id perm) \<noteq> None \<and> get_project db (project_id perm) \<noteq> None) \<longrightarrow>
      create_user_project_permission db perm =
        (db\<lparr>permissions := permissions db @ [perm]\<rparr>, Inr perm) \<and>
      get_user_project_permission (fst (create_user_project_permission db perm))
        (user_id perm) (project_id perm) = Some perm) \<and>
   (\<forall>g. get_user_project_permission db uid pid = Some g \<longrightarrow>
      snd (update_user_project_permission db uid pid s) = Some (g\<lparr>permission_level := s\<rparr>) \<and>
      get_user_project_permission (fst (update_user_project_permission db uid pid s)) uid pid =
        Some (g\<lparr>permission_level := s\<rparr>) \<and>
      (snd (update_project_endpoint user_project_service pid upd uid db) =
         Inl (HTTPException 403
               ''User does not have sufficient permissions to update this project'') \<longleftrightarrow>
       permission_level g \<noteq> ''admin'' \<and> permission_level g \<noteq> ''model_editor'') \<and>
      (snd (delete_project_endpoint user_project_service pid uid db) =
         Inl (HTTPException 403
               ''User does not have sufficient permissions to delete this project'') \<longleftrightarrow>
       permission_level g \<noteq> ''admin''))"
proof (intro conjI allI impI)
  assume a: "get_user_project_permission db (user_id perm) (project_id perm) = None \<and>
    (foreign_keys db \<longrightarrow>
       get_user db (user_id perm) \<noteq> None \<and> get_project db (project_id perm) \<noteq> None)"
  then show c: "create_user_project_permission db perm =
        (db\<lparr>permissions := permissions db @ [perm]\<rparr>, Inr perm)"
    by (simp add: create_permission_fresh)
  from a show "get_user_project_permission (fst (create_user_project_permission db perm))
        (user_id perm) (project_id perm) = Some perm"
    unfolding c by (simp add: get_user_project_permission_def find_append_last)
next
  fix g
  assume g: "get_user_project_permission db uid pid = Some g"
  then have key: "user_id g = uid \<and> project_id g = pid"
    by (simp add: get_permission_SomeD)
  from g have upd: "update_user_project_permission db uid pid s =
      (db\<lparr>permissions :=
            map (\<lambda>q. if user_id q = uid \<and> project_id q = pid then g\<lparr>permission_level := s\<rparr>
                      else q) (permissions db)\<rparr>,
       Some (g\<lparr>permission_level := s\<rparr>))"
    by (simp add: update_user_project_permission_def Let_def)
  show "snd (update_user_project_permission db uid pid s) = Some (g\<lparr>permission_level := s\<rparr>)"
    by (simp add: upd)
  from g key
  show "get_user_project_permission (fst (update_user_project_permission db uid pid s)) uid pid =
        Some (g\<lparr>permission_level := s\<rparr>)"
    unfolding upd
    by (simp add: get_user_project_permission_def
        find_map_replace [where P = "\<lambda>q. user_id q = uid \<and> project_id q = pid"])
  from g show "snd (update_project_endpoint user_project_service pid upd uid db) =
         Inl (HTTPException 403
               ''User does not have sufficient permissions to update this project'') \<longleftrightarrow>
       permission_level g \<noteq> ''admin'' \<and> permission_level g \<noteq> ''model_editor''"
    by (auto simp: update_project_endpoint_def user_project_service_def
        split: prod.splits option.splits)
  from g show "snd (delete_project_endpoint user_project_service pid uid db) =
         Inl (HTTPException 403
               ''User does not have sufficient permissions to delete this project'') \<longleftrightarrow>
       permission_level g \<noteq> ''admin''"
    by (auto simp: delete_project_endpoint_def user_project_service_def
        split: prod.splits option.splits)
qed

theorem permission_level_unvalidated_witness:
  "get_user_project_permission example_db 2 2 = None \<and>
   get_user example_db 2 = Some \<lparr>User_id = 2, username = ''user2'', email = None\<rparr> \<and>
   get_project example_db 2 =
     Some \<lparr>Project_id = 2, name = ''P2'', description = None, image_path = None,
           is_public = True\<rparr> \<and>
   snd (create_user_project_permission example_db
          \<lparr>user_id = 2, project_id = 2, permission_level = ''public_access''\<rparr>) =
     Inr \<lparr>user_id = 2, project_id = 2, permission_level = ''public_access''\<rparr> \<and>
   get_user_project_permission
     (fst (create_user_project_permission example_db
             \<lparr>user_id = 2, project_id = 2, permission_level = ''public_access''\<rparr>)) 2 2 =
     Some \<lparr>user_id = 2, project_id = 2, permission_level = ''public_access''\<rparr> \<and>
   get_user_project_permission example_db 2 1 =
     Some \<lparr>user_id = 2, project_id = 1, permission_level = ''viewer''\<rparr> \<and>
   get_user_project_permission
     (fst (update_user_project_permission example_db 2 1 ''no such role'')) 2 1 =
     Some \<lparr>user_id = 2, project_id = 1, permission_level = ''no such role''\<rparr> \<and>
   snd (update_project_endpoint user_project_service 1 example_update 2 example_db) =
     Inl (HTTPException 403
           ''User does not have sufficient permissions to update this project'')"
proof -
  let ?perm = "\<lparr>user_id = 2, project_id = 2, permission_level = ''public_access''\<rparr>"
  have free: "get_user_project_permission example_db 2 2 = None"
    by (simp add: get_user_project_permission_def example_db_def)
  have u: "get_user example_db 2 = Some \<lparr>User_id = 2, username = ''user2'', email = None\<rparr>"
    by (simp add: get_user_def example_db_def)
  have p: "get_project example_db 2 =
     Some \<lparr>Project_id = 2, name = ''P2'', description = None, image_path = None,
           is_public = True\<rparr>"
    by (simp add: get_project_def example_db_def)
  have held: "get_user_project_permission example_db 2 1 =
     Some \<lparr>user_id = 2, project_id = 1, permission_level = ''viewer''\<rparr>"
    by (simp add: get_user_project_permission_def example_db_def)
  note t = permission_level_unvalidated
    [of example_db ?perm 2 1 "''no such role''" example_update]
  have h: "get_user_project_permission example_db (user_id ?perm) (project_id ?perm) = None \<and>
    (foreign_keys example_db \<longrightarrow>
       get_user example_db (user_id ?perm) \<noteq> None \<and>
       get_project example_db (project_id ?perm) \<noteq> None)"
    using free u p by simp
  have c: "create_user_project_permission example_db ?perm =
          (example_db\<lparr>permissions := permissions example_db @ [?perm]\<rparr>, Inr ?perm) \<and>
        get_user_project_permission (fst (create_user_project_permission example_db ?perm))
          (user_id ?perm) (project_id ?perm) = Some ?perm"
    by (rule mp [OF t [THEN conjunct1] h])
  from c have "snd (create_user_project_permission example_db ?perm) = Inr ?perm"
    by simp
  moreover
  have "get_user_project_permission (fst (create_user_project_permission example_db ?perm))
           2 2 = Some ?perm"
    using c [THEN conjunct2] by (simp only: permission.select_convs)
  moreover
  from t [THEN conjunct2] held
  have "get_user_project_permission
          (fst (update_user_project_permission example_db 2 1 ''no such role'')) 2 1 =
        Some \<lparr>user_id = 2, project_id = 1, permission_level = ''no such role''\<rparr>"
    and "snd (update_project_endpoint user_project_service 1 example_update 2 example_db) =
         Inl (HTTPException 403
               ''User does not have sufficient permissions to update this project'')"
    by simp_all
  ultimately show ?thesis using free u p held by simp
qed

text \<open>
  Claim C3 as stated fails in two ways. The endpoint first requires the caller to hold
  \<^verbatim>\<open>'admin'\<close> on the project of the path: user 2 holds \<^verbatim>\<open>'viewer'\<close> on project 1 and
  asks for a second permission for the pair (user 1, project 1), which has one, and gets
  403, not 409. And the endpoint checks the pair (user of the body, project of the path)
  but inserts the pair of the body: user 2, admin of project 3, asks on path 3 for user 1,
  who has no permission on project 3, with a body that names project 1, and the insert
  raises \<^verbatim>\<open>IntegrityError\<close>.
\<close>

theorem add_permission_counterexample:
  "get_user_project_permission example_db 1 1 =
     Some \<lparr>user_id = 1, project_id = 1, permission_level = ''admin''\<rparr> \<and>
   add_project_permission_endpoint user_project_service 1
     \<lparr>user_id = 1, project_id = 1, permission_level = ''viewer''\<rparr> 2 example_db =
     (example_db, Inl (HTTPException 403
                        ''User does not have admin permissions on this project'')) \<and>
   get_user_project_permission example_db 1 3 = None \<and>
   add_project_permission_endpoint user_project_service 3
     \<lparr>user_id = 1, project_id = 1, permission_level = ''viewer''\<rparr> 2 example_db =
     (example_db, Inl IntegrityError)"
  by (simp add: add_project_permission_endpoint_def user_project_service_def
      create_user_project_permission_def insert_permission_def get_user_project_permission_def
      get_user_def get_project_def example_db_def)

text \<open>
  Claim C3, amended: for a caller who holds \<^verbatim>\<open>'admin'\<close> on the project of the path and a
  body that names that same project. If the user of the body already has a permission row
  on the project (in a database whose permissions name existing users and projects), the
  endpoint raises 409 and commits nothing. If the user has none, and user and project
  exist, the endpoint commits the database extended by exactly the row of the body and
  returns that row.
\<close>

theorem add_permission_by_admin:
  assumes "get_user_project_permission db admin_uid pid = Some a"
    and "permission_level a = ''admin''"
    and "project_id perm = pid"
  shows "(get_user_project_permission db (user_id perm) pid \<noteq> None \<and>
          permissions_name_projects db \<and> permissions_name_users db \<longrightarrow>
            add_project_permission_endpoint user_project_service pid perm admin_uid db =
              (db, Inl (HTTPException 409
                         ''User already has permissions for this project''))) \<and>
         (get_user_project_permission db (user_id perm) pid = None \<and>
          get_project db pid \<noteq> None \<and> get_user db (user_id perm) \<noteq> None \<longrightarrow>
            add_project_permission_endpoint user_project_service pid perm admin_uid db =
              (db\<lparr>permissions := permissions db @ [perm]\<rparr>, Inr perm))"
proof (intro conjI impI)
  assume h: "get_user_project_permission db (user_id perm) pid \<noteq> None \<and>
          permissions_name_projects db \<and> permissions_name_users db"
  then obtain g where g: "get_user_project_permission db (user_id perm) pid = Some g"
    by blast
  then have m: "g \<in> set (permissions db)" and k: "user_id g = user_id perm" "project_id g = pid"
    by (simp_all add: get_permission_SomeD)
  from h m have "project_id g \<in> set (map Project_id (projects db))"
    by (simp add: permissions_name_projects_def list_all_iff)
  moreover from h m have "user_id g \<in> set (map User_id (users db))"
    by (simp add: permissions_name_users_def list_all_iff)
  ultimately have "pid \<in> set (map Project_id (projects db))"
    and "user_id perm \<in> set (map User_id (users db))"
    using k by simp_all
  then have "get_project db pid \<noteq> None" and "get_user db (user_id perm) \<noteq> None"
    by (simp_all add: get_project_None_iff get_user_None_iff)
  with assms g
  show "add_project_permission_endpoint user_project_service pid perm admin_uid db =
          (db, Inl (HTTPException 409 ''User already has permissions for this project''))"
    by (simp add: add_project_permission_endpoint_def user_project_service_def Let_def)
next
  assume h: "get_user_project_permission db (user_id perm) pid = None \<and>
          get_project db pid \<noteq> None \<and> get_user db (user_id perm) \<noteq> None"
  with assms(3) have "create_user_project_permission db perm =
      (db\<lparr>permissions := permissions db @ [perm]\<rparr>, Inr perm)"
    by (simp add: create_permission_fresh)
  with assms h
  show "add_project_permission_endpoint user_project_service pid perm admin_uid db =
          (db\<lparr>permissions := permissions db @ [perm]\<rparr>, Inr perm)"
    by (simp add: add_project_permission_endpoint_def user_project_service_def Let_def)
qed

theorem add_permission_by_admin_witness:
  "get_user_project_permission example_db 1 1 =
     Some \<lparr>user_id = 1, project_id = 1, permission_level = ''admin''\<rparr> \<and>
   get_user_project_permission example_db 2 1 =
     Some \<lparr>user_id = 2, project_id = 1, permission_level = ''viewer''\<rparr> \<and>
   permissions_name_projects example_db \<and> permissions_name_users example_db \<and>
   add_project_permission_endpoint user_project_service 1
     \<lparr>user_id = 2, project_id = 1, permission_level = ''model_editor''\<rparr> 1 example_db =
     (example_db, Inl (HTTPException 409 ''User already has permissions for this project'')) \<and>
   get_user_project_permission example_db 1 2 =
     Some \<lparr>user_id = 1, project_id = 2, permission_level = ''admin''\<rparr> \<and>
   get_user_project_permission example_db 2 2 = None \<and>
   add_project_permission_endpoint user_project_service 2
     \<lparr>user_id = 2, project_id = 2, permission_level = ''model_editor''\<rparr> 1 example_db =
     (example_db\<lparr>permissions := permissions example_db @
        [\<lparr>user_id = 2, project_id = 2, permission_level = ''model_editor''\<rparr>]\<rparr>,
      Inr \<lparr>user_id = 2, project_id = 2, permission_level = ''model_editor''\<rparr>)"
proof -
  let ?again = "\<lparr>user_id = 2, project_id = 1, permission_level = ''model_editor''\<rparr>"
  let ?fresh = "\<lparr>user_id = 2, project_id = 2, permission_level = ''model_editor''\<rparr>"
  have a1: "get_user_project_permission example_db 1 1 =
     Some \<lparr>user_id = 1, project_id = 1, permission_level = ''admin''\<rparr>"
    and a2: "get_user_project_permission example_db 1 2 =
     Some \<lparr>user_id = 1, project_id = 2, permission_level = ''admin''\<rparr>"
    and held: "get_user_project_permission example_db 2 1 =
     Some \<lparr>user_id = 2, project_id = 1, permission_level = ''viewer''\<rparr>"
    and free: "get_user_project_permission example_db 2 2 = None"
    by (simp_all add: get_user_project_permission_def example_db_def)
  have inv: "permissions_name_projects example_db" "permissions_name_users example_db"
    by (simp_all add: permissions_name_projects_def permissions_name_users_def example_db_def)
  have ex: "get_project example_db 2 \<noteq> None" "get_user example_db 2 \<noteq> None"
    by (simp_all add: get_project_def get_user_def example_db_def)
  have "add_project_permission_endpoint user_project_service 1 ?again 1 example_db =
     (example_db, Inl (HTTPException 409 ''User already has permissions for this project''))"
    using add_permission_by_admin [OF a1, of ?again, THEN conjunct1] held inv by simp
  moreover
  have "add_project_permission_endpoint user_project_service 2 ?fresh 1 example_db =
     (example_db\<lparr>permissions := permissions example_db @ [?fresh]\<rparr>, Inr ?fresh)"
    using add_permission_by_admin [OF a2, of ?fresh, THEN conjunct2] free ex by simp
  ultimately show ?thesis using a1 a2 held free inv by simp
qed

section \<open>The integrity properties are kept\<close>

text \<open>
  The primary keys hold in every database the functions commit, and so does the property
  that every permission names an existing project, except where the backend does not check
  foreign keys and \<open>create_user_project_permission\<close> is given a project that does not
  exist (the endpoint checks the project of the path, not the one of the body).
\<close>

lemma create_project_result:
  "create_project db project uid =
     (if (uid, next_project_id db)
           \<in> set (map (\<lambda>q. (user_id q, project_id q)) (permissions db)) \<or>
         foreign_keys db \<and> uid \<notin> set (map User_id (users db))
      then (db, Inl IntegrityError)
      else (db\<lparr>projects := projects db @
                  [\<lparr>Project_id = next_project_id db, name = pb_name project,
                    description = pb_description project, image_path = None,
                    is_public = pb_is_public project\<rparr>],
               permissions := permissions db @
                  [\<lparr>user_id = uid, project_id = next_project_id db,
                    permission_level = ''admin''\<rparr>]\<rparr>,
            Inr \<lparr>Project_id = next_project_id db, name = pb_name project,
                 description = pb_description project, image_path = None,
                 is_public = pb_is_public project\<rparr>))"
  using next_project_id_fresh [of db]
  by (simp add: create_project_def insert_project_def insert_permission_def Let_def)

lemma primary_keys_create_project:
  assumes "primary_keys db"
  shows "primary_keys (fst (create_project db project uid))"
  using assms next_project_id_fresh [of db]
  by (simp add: create_project_result primary_keys_def)

lemma names_projects_create_project:
  assumes "permissions_name_projects db"
  shows "permissions_name_projects (fst (create_project db project uid))"
  using assms
  by (auto simp: create_project_result permissions_name_projects_def list_all_iff)

lemma names_projects_update_project:
  assumes "permissions_name_projects db"
  shows "permissions_name_projects (fst (update_project db pid upd))"
proof (cases "get_project db pid")
  case None
  with assms show ?thesis by (simp add: update_project_def)
next
  case (Some x)
  then have "Project_id x = pid"
    by (auto simp: get_project_def find_Some_iff)
  then have "map Project_id (map (\<lambda>p. if Project_id p = pid
        then fold (\<lambda>kv p. setattr p kv) (model_dump_exclude_unset upd) x else p) (projects db)) =
      map Project_id (projects db)"
    by (simp add: patch_fields comp_def cong: map_cong)
  with assms Some show ?thesis
    by (simp add: update_project_def permissions_name_projects_def Let_def del: map_map)
qed

lemma primary_keys_create_permission:
  assumes "primary_keys db"
  shows "primary_keys (fst (create_user_project_permission db perm))"
  using assms
  by (auto simp: create_permission_insert insert_permission_def primary_keys_def)

lemma primary_keys_delete_project:
  assumes "primary_keys db"
  shows "primary_keys (fst (delete_project db pid))"
  using assms
  by (auto simp: delete_project_def primary_keys_def distinct_map_filter split: option.split)

lemma primary_keys_update_project:
  assumes "primary_keys db"
  shows "primary_keys (fst (update_project db pid upd))"
proof (cases "get_project db pid")
  case None
  with assms show ?thesis by (simp add: update_project_def)
next
  case (Some x)
  then have "Project_id x = pid"
    by (auto simp: get_project_def find_Some_iff)
  then have "map Project_id (map (\<lambda>p. if Project_id p = pid
        then fold (\<lambda>kv p. setattr p kv) (model_dump_exclude_unset upd) x else p) (projects db)) =
      map Project_id (projects db)"
    by (simp add: patch_fields comp_def cong: map_cong)
  with assms Some show ?thesis
    by (simp add: update_project_def primary_keys_def Let_def del: map_map)
qed

lemma primary_keys_update_permission:
  assumes "primary_keys db"
  shows "primary_keys (fst (update_user_project_permission db uid pid level))"
proof (cases "get_user_project_permission db uid pid")
  case None
  with assms show ?thesis by (simp add: update_user_project_permission_def)
next
  case (Some g)
  then have "user_id g = uid \<and> project_id g = pid"
    by (simp add: get_permission_SomeD)
  then have "map (\<lambda>q. (user_id q, project_id q))
       (map (\<lambda>q. if user_id q = uid \<and> project_id q = pid then g\<lparr>permission_level := level\<rparr> else q)
          (permissions db)) =
      map (\<lambda>q. (user_id q, project_id q)) (permissions db)"
    by (simp add: comp_def cong: map_cong)
  with assms Some show ?thesis
    by (simp add: update_user_project_permission_def primary_keys_def Let_def del: map_map)
qed

lemma names_projects_delete_project:
  assumes "permissions_name_projects db"
  shows "permissions_name_projects (fst (delete_project db pid))"
  using assms
  by (auto simp: delete_project_def permissions_name_projects_def list_all_iff
      split: option.split)

lemma names_projects_create_permission:
  assumes "permissions_name_projects db" and "foreign_keys db"
  shows "permissions_name_projects (fst (create_user_project_permission db perm))"
  using assms
  by (auto simp: create_permission_insert insert_permission_def permissions_name_projects_def
      list_all_iff)

lemma names_projects_add_endpoint:
  assumes "permissions_name_projects db" and "foreign_keys db \<or> project_id perm = pid"
  shows "permissions_name_projects
           (fst (add_project_permission_endpoint user_project_service pid perm admin_uid db))"
  using assms
  by (auto simp: add_project_permission_endpoint_def user_project_service_def Let_def
      create_permission_insert insert_permission_def permissions_name_projects_def
      list_all_iff get_project_None_iff split: option.split)

lemma names_projects_update_permission:
  assumes "permissions_name_projects db"
  shows "permissions_name_projects (fst (update_user_project_permission db uid pid level))"
proof (cases "get_user_project_permission db uid pid")
  case None
  with assms show ?thesis by (simp add: update_user_project_permission_def)
next
  case (Some g)
  then have "g \<in> set (permissions db)"
    by (simp add: get_permission_SomeD)
  with assms Some show ?thesis
    by (auto simp: update_user_project_permission_def permissions_name_projects_def
        list_all_iff Let_def)
qed

lemma names_projects_delete_permission:
  assumes "permissions_name_projects db"
  shows "permissions_name_projects (fst (delete_user_project_permission db uid pid))"
  using assms
  by (auto simp: delete_user_project_permission_def permissions_name_projects_def
      list_all_iff split: option.split)

end
